theory Spec2Isabelle
  imports Complex_Main
begin

section \<open>Variational factorization machine: the model of \<^verbatim>\<open>vfm.py\<close>\<close>

text \<open>
  The file \<^verbatim>\<open>vfm.py\<close> defines one class, \<^verbatim>\<open>VFM\<close>, with a constructor, the
  memoised \<^verbatim>\<open>mask\<close> and \<^verbatim>\<open>forward\<close>. Arrays are lists (a matrix is the list of its
  rows, a rank-3 array the list of its batch slices); float32 numbers are real numbers, so
  rounding, overflow and NaN are outside the model. The random draws of
  \<^verbatim>\<open>np.random.randn\<close> and of \<^verbatim>\<open>F.gaussian\<close> are arguments: a function from the
  position in the array to the number drawn there. Every exception of the source is a
  value of \<open>error\<close>, and \<^verbatim>\<open>self\<close> is passed in and returned.

  The tensor primitives are those of the library the source imports:
  \<^item> \<^verbatim>\<open>F.gaussian(mean, ln_var)\<close> is \<open>mean + exp (ln_var * 0.5) * eps\<close> with \<open>eps\<close>
    drawn from the standard normal law;
  \<^item> \<^verbatim>\<open>F.gaussian_kl_divergence(mean, ln_var)\<close> is
    \<open>(sum (mean * mean) + sum (exp ln_var) - sum ln_var - size) * 0.5\<close>;
  \<^item> \<^verbatim>\<open>F.mean_squared_error\<close> divides the squared distance by the number of entries;
  \<^item> two variables are added or multiplied only when their shapes are equal, and
    \<^verbatim>\<open>F.reshape\<close> keeps the number of entries;
  \<^item> an array constant (the mask, which is no variable) is broadcast to the shape of the
    variable it multiplies, an axis of length one being repeated, and refused when that
    does not give the variable's shape;
  \<^item> \<^verbatim>\<open>F.batch_matmul\<close> reads a matrix of shape \<^verbatim>\<open>(B, N)\<close> as \<^verbatim>\<open>B\<close> columns of
    length \<^verbatim>\<open>N\<close>.

  The feature numbers in \<^verbatim>\<open>loc\<close> are natural numbers. A batch with no row is the empty
  list, which has no column count (it is taken as 0), and its mean squared error, NaN in
  the source, is 0 here: the statements about losses are about batches with a row.
\<close>

type_synonym vec = "real list"
type_synonym mat = "real list list"
type_synonym ten3 = "real list list list"

datatype error =
    ShapeMismatch
  | IndexOutOfRange
  | ZeroDivision
  | NegativeDimension
  | NotAnInteger

definition bindE :: "error + 'a \<Rightarrow> ('a \<Rightarrow> error + 'b) \<Rightarrow> error + 'b" where
  "bindE m f = (case m of Inl e \<Rightarrow> Inl e | Inr v \<Rightarrow> f v)"

subsection \<open>The model object\<close>

text \<open>
  The attributes of a \<^verbatim>\<open>VFM\<close>. \<open>bias_mu\<close> and \<open>bias_lv\<close> are the one entry of
  the \<^verbatim>\<open>(1,)\<close> arrays, \<open>slope_mu\<close> and \<open>slope_lv\<close> the one column of the
  \<^verbatim>\<open>(n_features, 1)\<close> tables, \<open>prior_slope_mu\<close> and \<open>prior_slope_lv\<close> the one
  entry of the \<^verbatim>\<open>(1, 1, 1)\<close> arrays, \<open>latent_mu\<close> and \<open>latent_lv\<close> the
  \<^verbatim>\<open>(n_features, n_dim)\<close> tables and \<open>prior_latent_mu\<close>, \<open>prior_latent_lv\<close> the
  \<^verbatim>\<open>n_dim\<close> entries of the \<^verbatim>\<open>(1, 1, n_dim)\<close> arrays. \<open>mask_cache\<close> is
  \<^verbatim>\<open>_mask\<close>. The attribute \<^verbatim>\<open>lossfun\<close> is stored and never read, and is left out.
\<close>

record vfm =
  n_dim :: nat
  n_features :: nat
  lambda0 :: real
  lambda1 :: real
  lambda2 :: real
  intx_term :: bool
  total_nobs :: real
  bias_mu :: real
  bias_lv :: real
  slope_mu :: vec
  slope_lv :: vec
  prior_slope_mu :: real
  prior_slope_lv :: real
  latent_mu :: mat
  latent_lv :: mat
  prior_latent_mu :: vec
  prior_latent_lv :: vec
  mask_cache :: "ten3 option"

text \<open>The shapes the constructor gives the parameter arrays, which nothing in the file changes.\<close>

definition wf_model :: "vfm \<Rightarrow> bool" where
  "wf_model s =
     (length (slope_mu s) = n_features s \<and> length (slope_lv s) = n_features s \<and>
      length (latent_mu s) = n_features s \<and> length (latent_lv s) = n_features s \<and>
      list_all (\<lambda>row. length row = n_dim s) (latent_mu s) \<and>
      list_all (\<lambda>row. length row = n_dim s) (latent_lv s) \<and>
      length (prior_latent_mu s) = n_dim s \<and> length (prior_latent_lv s) = n_dim s)"

subsection \<open>Construction\<close>

text \<open>
  \<^verbatim>\<open>__init__\<close>. \<^verbatim>\<open>n_features\<close> defaults to \<^verbatim>\<open>None\<close>; the sizes are Python integers.
  The arrays are allocated by the links: a \<^verbatim>\<open>None\<close> size and a negative size are
  refused there. Nothing else is checked. \<^verbatim>\<open>L.Bias\<close> starts at zero.
\<close>

record config =
  c_n_features :: "int option"
  c_n_dim :: int
  c_lambda0 :: real
  c_lambda1 :: real
  c_lambda2 :: real
  c_init_bias_mu :: real
  c_init_bias_lv :: real
  c_intx_term :: bool
  c_total_nobs :: real

record randn =
  randn_latent_mu :: "nat \<Rightarrow> nat \<Rightarrow> real"
  randn_latent_lv :: "nat \<Rightarrow> nat \<Rightarrow> real"
  randn_slope_mu :: "nat \<Rightarrow> real"
  randn_slope_lv :: "nat \<Rightarrow> real"

definition init_vfm :: "randn \<Rightarrow> config \<Rightarrow> error + vfm" where
  "init_vfm rnd cfg =
     (case c_n_features cfg of
        None \<Rightarrow> Inl NotAnInteger
      | Some nfeat \<Rightarrow>
          if nfeat < 0 \<or> c_n_dim cfg < 0 then Inl NegativeDimension
          else
            let nf = nat nfeat; nd = nat (c_n_dim cfg);
                c = sqrt (real (nf * nd)); d = sqrt (real nf)
            in Inr \<lparr>n_dim = nd, n_features = nf,
                 lambda0 = c_lambda0 cfg, lambda1 = c_lambda1 cfg, lambda2 = c_lambda2 cfg,
                 intx_term = c_intx_term cfg, total_nobs = c_total_nobs cfg,
                 bias_mu = 0 * 0.0 + c_init_bias_mu cfg,
                 bias_lv = 0 * 0.0 + c_init_bias_lv cfg,
                 slope_mu = map (\<lambda>i. randn_slope_mu rnd i / d) [0..<nf],
                 slope_lv = map (\<lambda>i. randn_slope_lv rnd i / d - 2) [0..<nf],
                 prior_slope_mu = 0, prior_slope_lv = 0,
                 latent_mu = map (\<lambda>i. map (\<lambda>k. randn_latent_mu rnd i k / c) [0..<nd]) [0..<nf],
                 latent_lv = map (\<lambda>i. map (\<lambda>k. randn_latent_lv rnd i k / c - 2) [0..<nd]) [0..<nf],
                 prior_latent_mu = replicate nd 0, prior_latent_lv = replicate nd 0,
                 mask_cache = None\<rparr>)"

subsection \<open>The diagonal mask and its cache\<close>

definition ones :: "nat \<Rightarrow> nat \<Rightarrow> mat" where
  "ones n m = replicate n (replicate m 1)"

definition eye :: "nat \<Rightarrow> mat" where
  "eye n = map (\<lambda>i. map (\<lambda>j. if i = j then 1 else 0) [0..<n]) [0..<n]"

definition mat_sub :: "mat \<Rightarrow> mat \<Rightarrow> mat" where
  "mat_sub a b = map2 (map2 (-)) a b"

definition tile :: "mat \<Rightarrow> nat \<Rightarrow> ten3" where
  "tile m bs = replicate bs m"

definition build_mask :: "nat \<Rightarrow> nat \<Rightarrow> ten3" where
  "build_mask bs nf = (let mask_t = mat_sub (ones nf nf) (eye nf) in tile mask_t bs)"

text \<open>
  \<^verbatim>\<open>mask(self, bs, nf)\<close>: the result and \<^verbatim>\<open>self\<close> afterwards.
  \<^verbatim>\<open>self._mask.shape[0]\<close> is the number of batch slices.
\<close>

definition mask_vfm :: "nat \<Rightarrow> nat \<Rightarrow> vfm \<Rightarrow> ten3 \<times> vfm" where
  "mask_vfm bs nf s =
     (case mask_cache s of
        None \<Rightarrow> (let masks = build_mask bs nf in (masks, s\<lparr>mask_cache := Some masks\<rparr>))
      | Some cached \<Rightarrow>
          if length cached \<noteq> bs
          then (let masks = build_mask bs nf in (masks, s\<lparr>mask_cache := Some masks\<rparr>))
          else (cached, s))"

subsection \<open>The forward pass\<close>

text \<open>The draws of the three calls of \<^verbatim>\<open>F.gaussian\<close>, by position.\<close>

record noise =
  eps_bias :: "nat \<Rightarrow> real"
  eps_slope :: "nat \<Rightarrow> nat \<Rightarrow> real"
  eps_latent :: "nat \<Rightarrow> nat \<Rightarrow> nat \<Rightarrow> real"

definition gaussian :: "real \<Rightarrow> real \<Rightarrow> real \<Rightarrow> real" where
  "gaussian eps mean ln_var = mean + exp (ln_var * 0.5) * eps"

definition ncols :: "'a list list \<Rightarrow> nat" where
  "ncols m = (case m of [] \<Rightarrow> 0 | row # _ \<Rightarrow> length row)"

text \<open>
  A link \<^verbatim>\<open>L.EmbedID\<close> applied to \<^verbatim>\<open>loc\<close>: the rows of the table at the indices.
  Indices are column numbers and are not negative; one past the table is refused.
\<close>

definition embed_id :: "'a list \<Rightarrow> nat list list \<Rightarrow> error + 'a list list" where
  "embed_id W loc =
     (if list_all (list_all (\<lambda>i. i < length W)) loc
      then Inr (map (map (\<lambda>i. W ! i)) loc)
      else Inl IndexOutOfRange)"

text \<open>
  Lines 89 to 93: the bias, one draw for each entry of \<^verbatim>\<open>y\<close>. The sum
  \<^verbatim>\<open>bs_lv += is_test * lv_floor\<close> needs \<^verbatim>\<open>is_test\<close> to have the shape of \<^verbatim>\<open>y\<close>.
\<close>

definition bias_term :: "noise \<Rightarrow> vec \<Rightarrow> vec \<Rightarrow> real \<Rightarrow> vfm \<Rightarrow> error + vec" where
  "bias_term ns y is_test lv_floor s =
     (if length is_test \<noteq> length y then Inl ShapeMismatch
      else Inr (map (\<lambda>r. gaussian (eps_bias ns r) (bias_mu s)
                            (bias_lv s + is_test ! r * lv_floor)) [0..<length y]))"

text \<open>
  Lines 98 to 105: the sampled slope of every slot. The looked-up means have the shape of
  \<^verbatim>\<open>loc\<close> and are added to the prior broadcast to the shape of \<^verbatim>\<open>val\<close>;
  \<^verbatim>\<open>is_test\<close> is reshaped to \<^verbatim>\<open>(bs, 1, 1)\<close>.
\<close>

definition coef_sample :: "noise \<Rightarrow> mat \<Rightarrow> nat list list \<Rightarrow> vec \<Rightarrow> real \<Rightarrow> vfm \<Rightarrow> error + mat" where
  "coef_sample ns val loc is_test lv_floor s =
     (let bs = length val; nf = ncols val in
      bindE (embed_id (slope_mu s) loc) (\<lambda>e_mu.
      if map length loc \<noteq> replicate bs nf then Inl ShapeMismatch else
      bindE (embed_id (slope_lv s) loc) (\<lambda>e_lv.
      if length is_test \<noteq> bs then Inl ShapeMismatch else
      Inr (map (\<lambda>r. map (\<lambda>i. gaussian (eps_slope ns r i)
                                  (e_mu ! r ! i + prior_slope_mu s)
                                  (e_lv ! r ! i + prior_slope_lv s + is_test ! r * lv_floor))
                      [0..<nf]) [0..<bs]))))"

text \<open>Line 106: \<^verbatim>\<open>F.sum(coef * val, axis=1)\<close>.\<close>

definition slope_sum :: "mat \<Rightarrow> mat \<Rightarrow> vec" where
  "slope_sum coef val = map2 (\<lambda>c x. sum_list (map2 (*) c x)) coef val"

text \<open>Lines 111 to 118: the sampled latent vector of every slot.\<close>

definition vi_sample :: "noise \<Rightarrow> mat \<Rightarrow> nat list list \<Rightarrow> vec \<Rightarrow> real \<Rightarrow> vfm \<Rightarrow> error + ten3" where
  "vi_sample ns val loc is_test lv_floor s =
     (let bs = length val; nf = ncols val in
      bindE (embed_id (latent_mu s) loc) (\<lambda>e_mu.
      if map length loc \<noteq> replicate bs nf then Inl ShapeMismatch else
      bindE (embed_id (latent_lv s) loc) (\<lambda>e_lv.
      if length is_test \<noteq> bs then Inl ShapeMismatch else
      Inr (map (\<lambda>r. map (\<lambda>i. map (\<lambda>k. gaussian (eps_latent ns r i k)
                                  (e_mu ! r ! i ! k + prior_latent_mu s ! k)
                                  (e_lv ! r ! i ! k + prior_latent_lv s ! k + is_test ! r * lv_floor))
                      [0..<n_dim s]) [0..<nf]) [0..<bs]))))"

definition dot :: "vec \<Rightarrow> vec \<Rightarrow> real" where
  "dot u v = sum_list (map2 (*) u v)"

text \<open>\<^verbatim>\<open>F.batch_matmul(a, b, transb=True)\<close> on rank-3 arrays, and on a matrix, whose rows
  it reads as columns.\<close>

definition batch_matmul_transb :: "ten3 \<Rightarrow> ten3 \<Rightarrow> ten3" where
  "batch_matmul_transb a b = map2 (\<lambda>am bm. map (\<lambda>u. map (\<lambda>v. dot u v) bm) am) a b"

definition batch_outer :: "mat \<Rightarrow> mat \<Rightarrow> ten3" where
  "batch_outer a b = map2 (\<lambda>u v. map (\<lambda>p. map (\<lambda>q. p * q) v) u) a b"

definition mul3 :: "ten3 \<Rightarrow> ten3 \<Rightarrow> ten3" where
  "mul3 a b = map2 (map2 (map2 (*))) a b"

text \<open>
  A variable of shape \<open>(bs, n, m)\<close> times an array constant: the constant is broadcast
  to the variable's shape (an axis of length one is repeated), and refused when that
  does not give the variable's shape.
\<close>

definition fits :: "nat \<Rightarrow> 'a list \<Rightarrow> bool" where
  "fits n xs = (length xs = n \<or> length xs = 1)"

definition stretch :: "nat \<Rightarrow> 'a list \<Rightarrow> 'a list" where
  "stretch n xs = (if length xs = n then xs else replicate n (hd xs))"

definition mul_const :: "nat \<Rightarrow> nat \<Rightarrow> nat \<Rightarrow> ten3 \<Rightarrow> ten3 \<Rightarrow> error + ten3" where
  "mul_const bs n m x c =
     (if fits bs c \<and> list_all (\<lambda>sl. fits n sl \<and> list_all (fits m) sl) c
      then Inr (mul3 x (stretch bs (map (\<lambda>sl. stretch n (map (stretch m) sl)) c)))
      else Inl ShapeMismatch)"

text \<open>Lines 121 to 129: the interaction term of every row.\<close>

definition intx_sum :: "ten3 \<Rightarrow> mat \<Rightarrow> ten3 \<Rightarrow> error + vec" where
  "intx_sum vi val mask_t =
     (let vij = batch_matmul_transb vi vi;
          xij = batch_outer val val
      in bindE (mul_const (length val) (ncols val) (ncols val) (mul3 vij xij) mask_t)
           (\<lambda>masked. Inr (map (\<lambda>sl. sum_list (map sum_list sl)) masked)))"

definition add_vec :: "vec \<Rightarrow> vec \<Rightarrow> error + vec" where
  "add_vec a b = (if length a = length b then Inr (map2 (+) a b) else Inl ShapeMismatch)"

definition mean_squared_error :: "vec \<Rightarrow> vec \<Rightarrow> real" where
  "mean_squared_error x0 x1 = (let diff = map2 (-) x0 x1 in dot diff diff / real (length diff))"

definition gaussian_kl_divergence :: "vec \<Rightarrow> vec \<Rightarrow> real" where
  "gaussian_kl_divergence mean ln_var =
     (sum_list (map (\<lambda>m. m * m) mean) + sum_list (map exp ln_var) - sum_list ln_var
        - real (length mean)) * 0.5"

text \<open>Lines 87 to 135: the prediction \<^verbatim>\<open>pred\<close>, with the mask that \<^verbatim>\<open>self.mask\<close> returned.\<close>

definition pred_of ::
  "noise \<Rightarrow> mat \<Rightarrow> nat list list \<Rightarrow> vec \<Rightarrow> vec \<Rightarrow> real \<Rightarrow> ten3 \<Rightarrow> vfm \<Rightarrow> error + vec" where
  "pred_of ns val loc y is_test lv_floor mask_t s =
     bindE (bias_term ns y is_test lv_floor s) (\<lambda>bias.
     bindE (coef_sample ns val loc is_test lv_floor s) (\<lambda>coef.
     let slop = slope_sum coef val in
     bindE (vi_sample ns val loc is_test lv_floor s) (\<lambda>vi.
     bindE (intx_sum vi val mask_t) (\<lambda>intx.
     bindE (add_vec bias slop) (\<lambda>pred.
     if intx_term s then add_vec pred intx else Inr pred)))))"

text \<open>What \<^verbatim>\<open>reporter.report\<close> is given; \<open>loss\<close> is also the value returned.\<close>

record logs =
  loss :: real
  rmse :: real
  reg0 :: real
  regt :: real
  reg1 :: real
  reg2 :: real
  bias :: real

text \<open>
  \<^verbatim>\<open>forward(self, val, loc, y, is_test, lv_floor)\<close>: the logs or the exception, and
  \<^verbatim>\<open>self\<close> afterwards. \<^verbatim>\<open>self.mask\<close> is called first, at line 85.
\<close>

definition forward ::
  "noise \<Rightarrow> mat \<Rightarrow> nat list list \<Rightarrow> vec \<Rightarrow> vec \<Rightarrow> real \<Rightarrow> vfm \<Rightarrow> (error + logs) \<times> vfm" where
  "forward ns val loc y is_test lv_floor s0 =
     (let bs = length val; nf = ncols val;
          (mask_t, s) = mask_vfm bs nf s0
      in (bindE (pred_of ns val loc y is_test lv_floor mask_t s) (\<lambda>pred.
          let mse = mean_squared_error pred y;
              rmse = sqrt mse
          in if total_nobs s = 0 then Inl ZeroDivision
          else
            let frac = real (length loc) * 1.0 / total_nobs s;
                reg0 = gaussian_kl_divergence [bias_mu s] [bias_lv s];
                reg1 = gaussian_kl_divergence (slope_mu s) (slope_lv s);
                reg2 = gaussian_kl_divergence (concat (latent_mu s)) (concat (latent_lv s));
                reg3 = gaussian_kl_divergence (prior_latent_mu s) (prior_latent_lv s);
                reg4 = gaussian_kl_divergence [prior_slope_mu s] [prior_slope_lv s];
                regt = reg0 * lambda0 s + reg1 * lambda1 s + reg2 * lambda2 s;
                regt = regt + (reg3 * lambda0 s + reg4 * lambda0 s);
                loss = mse + regt * frac
            in Inr \<lparr>loss = loss, rmse = rmse, reg0 = reg0, regt = regt,
                    reg1 = reg1, reg2 = reg2, bias = sum_list [bias_mu s]\<rparr>), s))"


text \<open>Lines 150 and 151: the summed regularization \<^verbatim>\<open>regt\<close>.\<close>

definition regt_of :: "vfm \<Rightarrow> real" where
  "regt_of s =
     gaussian_kl_divergence [bias_mu s] [bias_lv s] * lambda0 s
     + gaussian_kl_divergence (slope_mu s) (slope_lv s) * lambda1 s
     + gaussian_kl_divergence (concat (latent_mu s)) (concat (latent_lv s)) * lambda2 s
     + (gaussian_kl_divergence (prior_latent_mu s) (prior_latent_lv s) * lambda0 s
        + gaussian_kl_divergence [prior_slope_mu s] [prior_slope_lv s] * lambda0 s)"

subsection \<open>The Gaussian KL divergence in closed form\<close>

text \<open>
  The divergence of the normal law with mean \<open>mu\<close> and log-variance \<open>lv\<close> from the
  normal law with mean \<open>pmu\<close> and log-variance \<open>plv\<close>, and its sum over the entries
  of a parameter group measured against one reference law. These two follow the
  textbook formula, not the source: the regularization terms of the source are
  compared with them.
\<close>

definition kl_normal :: "real \<Rightarrow> real \<Rightarrow> real \<Rightarrow> real \<Rightarrow> real" where
  "kl_normal mu lv pmu plv = 0.5 * (plv - lv + (exp lv + (mu - pmu)\<^sup>2) / exp plv - 1)"

definition kl_sum :: "vec \<Rightarrow> vec \<Rightarrow> real \<Rightarrow> real \<Rightarrow> real" where
  "kl_sum mus lvs pmu plv = sum_list (map2 (\<lambda>mu lv. kl_normal mu lv pmu plv) mus lvs)"

subsection \<open>A valid call and its result, entry by entry\<close>

text \<open>
  What the shape tests of a forward pass come to: \<^verbatim>\<open>val\<close> is a matrix with at least one
  row, \<^verbatim>\<open>loc\<close> has its shape and holds feature numbers, \<^verbatim>\<open>y\<close> and \<^verbatim>\<open>is_test\<close> have one
  entry for each row, \<^verbatim>\<open>total_nobs\<close> is not zero and the mask that \<^verbatim>\<open>self.mask\<close> returns
  can be broadcast to \<^verbatim>\<open>(bs, nf, nf)\<close>. \<open>mask_used\<close> is that mask after broadcasting.
\<close>

definition mask_fits :: "nat \<Rightarrow> nat \<Rightarrow> ten3 \<Rightarrow> bool" where
  "mask_fits bs nf c = (fits bs c \<and> list_all (\<lambda>sl. fits nf sl \<and> list_all (fits nf) sl) c)"

definition valid_call :: "mat \<Rightarrow> nat list list \<Rightarrow> vec \<Rightarrow> vec \<Rightarrow> vfm \<Rightarrow> bool" where
  "valid_call val loc y is_test s =
     (0 < length val \<and>
      list_all (\<lambda>row. length row = ncols val) val \<and>
      map length loc = replicate (length val) (ncols val) \<and>
      list_all (list_all (\<lambda>i. i < n_features s)) loc \<and>
      length y = length val \<and> length is_test = length val \<and>
      total_nobs s \<noteq> 0 \<and>
      mask_fits (length val) (ncols val) (fst (mask_vfm (length val) (ncols val) s)))"

definition mask_used :: "mat \<Rightarrow> vfm \<Rightarrow> ten3" where
  "mask_used val s =
     stretch (length val)
       (map (\<lambda>sl. stretch (ncols val) (map (stretch (ncols val)) sl))
          (fst (mask_vfm (length val) (ncols val) s)))"

text \<open>
  The entries of the sampled tensors and of \<^verbatim>\<open>pred\<close> as functions of their position:
  row \<open>r\<close>, slot \<open>i\<close>, latent dimension \<open>k\<close>.
\<close>

definition bias_at :: "noise \<Rightarrow> vec \<Rightarrow> real \<Rightarrow> vfm \<Rightarrow> nat \<Rightarrow> real" where
  "bias_at ns is_test lv_floor s r =
     gaussian (eps_bias ns r) (bias_mu s) (bias_lv s + is_test ! r * lv_floor)"

definition coef_at :: "noise \<Rightarrow> nat list list \<Rightarrow> vec \<Rightarrow> real \<Rightarrow> vfm \<Rightarrow> nat \<Rightarrow> nat \<Rightarrow> real" where
  "coef_at ns loc is_test lv_floor s r i =
     gaussian (eps_slope ns r i) (slope_mu s ! (loc ! r ! i) + prior_slope_mu s)
       (slope_lv s ! (loc ! r ! i) + prior_slope_lv s + is_test ! r * lv_floor)"

definition vi_at :: "noise \<Rightarrow> nat list list \<Rightarrow> vec \<Rightarrow> real \<Rightarrow> vfm \<Rightarrow> nat \<Rightarrow> nat \<Rightarrow> nat \<Rightarrow> real" where
  "vi_at ns loc is_test lv_floor s r i k =
     gaussian (eps_latent ns r i k) (latent_mu s ! (loc ! r ! i) ! k + prior_latent_mu s ! k)
       (latent_lv s ! (loc ! r ! i) ! k + prior_latent_lv s ! k + is_test ! r * lv_floor)"

definition intx_at ::
  "noise \<Rightarrow> mat \<Rightarrow> nat list list \<Rightarrow> vec \<Rightarrow> real \<Rightarrow> ten3 \<Rightarrow> vfm \<Rightarrow> nat \<Rightarrow> real" where
  "intx_at ns val loc is_test lv_floor M s r =
     (\<Sum>i<ncols val. \<Sum>j<ncols val.
        (\<Sum>k<n_dim s. vi_at ns loc is_test lv_floor s r i k * vi_at ns loc is_test lv_floor s r j k)
        * (val ! r ! i * val ! r ! j) * M ! r ! i ! j)"

definition pred_at ::
  "noise \<Rightarrow> mat \<Rightarrow> nat list list \<Rightarrow> vec \<Rightarrow> real \<Rightarrow> ten3 \<Rightarrow> vfm \<Rightarrow> nat \<Rightarrow> real" where
  "pred_at ns val loc is_test lv_floor M s r =
     bias_at ns is_test lv_floor s r
     + (\<Sum>i<ncols val. coef_at ns loc is_test lv_floor s r i * val ! r ! i)
     + (if intx_term s then intx_at ns val loc is_test lv_floor M s r else 0)"

subsection \<open>The pairwise sums of a factorization machine\<close>




subsection \<open>Concrete inputs\<close>

text \<open>
  A model with one feature and one latent dimension, as it is before its first forward
  pass, and the draws that are all zero.
\<close>

definition example_model :: vfm where
  "example_model =
     \<lparr>n_dim = 1, n_features = 1, lambda0 = 1, lambda1 = 1, lambda2 = 1, intx_term = True,
      total_nobs = 1, bias_mu = 0, bias_lv = 0, slope_mu = [1], slope_lv = [0],
      prior_slope_mu = 0, prior_slope_lv = 0, latent_mu = [[1]], latent_lv = [[0]],
      prior_latent_mu = [0], prior_latent_lv = [0], mask_cache = None\<rparr>"

definition no_noise :: noise where
  "no_noise = \<lparr>eps_bias = (\<lambda>_. 0), eps_slope = (\<lambda>_ _. 0), eps_latent = (\<lambda>_ _ _. 0)\<rparr>"

text \<open>
  Variants of it: a learned slope prior, all parameters at zero, and no interaction term;
  a configuration with a negative \<^verbatim>\<open>lambda0\<close> and the draws of \<^verbatim>\<open>randn\<close> that are all
  zero.
\<close>

definition prior_model :: vfm where
  "prior_model = example_model\<lparr>prior_slope_mu := 1, prior_slope_lv := ln 2\<rparr>"

definition zero_model :: vfm where
  "zero_model = example_model\<lparr>slope_mu := [0], latent_mu := [[0]]\<rparr>"

definition flat_model :: vfm where
  "flat_model = example_model\<lparr>intx_term := False\<rparr>"

definition example_config :: config where
  "example_config =
     \<lparr>c_n_features = Some 1, c_n_dim = 1, c_lambda0 = - 1, c_lambda1 = 0, c_lambda2 = 0,
      c_init_bias_mu = 0, c_init_bias_lv = 0, c_intx_term = True, c_total_nobs = 1\<rparr>"

definition zero_randn :: randn where
  "zero_randn = \<lparr>randn_latent_mu = (\<lambda>_ _. 0), randn_latent_lv = (\<lambda>_ _. 0),
                  randn_slope_mu = (\<lambda>_. 0), randn_slope_lv = (\<lambda>_. 0)\<rparr>"

section \<open>The mask cache\<close>

lemma length_build_mask [simp]: "length (build_mask bs nf) = bs"
  by (simp add: build_mask_def tile_def)

lemma mask_vfm_hit:
  "mask_cache s = Some cached \<Longrightarrow> length cached = bs \<Longrightarrow> mask_vfm bs nf s = (cached, s)"
  by (simp add: mask_vfm_def)

lemma mask_vfm_miss:
  "mask_cache s = None \<or> (\<exists>cached. mask_cache s = Some cached \<and> length cached \<noteq> bs) \<Longrightarrow>
   mask_vfm bs nf s = (build_mask bs nf, s\<lparr>mask_cache := Some (build_mask bs nf)\<rparr>)"
  by (auto simp add: mask_vfm_def Let_def)


lemma length_mask_vfm [simp]: "length (fst (mask_vfm bs nf s)) = bs"
  by (simp add: mask_vfm_def Let_def split: option.splits)

lemmas mask_eval =
  mask_vfm_def build_mask_def tile_def mat_sub_def ones_def eye_def Let_def upt_rec



lemma mask_slice:
  "mat_sub (ones n n) (eye n) = map (\<lambda>i. map (\<lambda>j. if i = j then 0 else 1) [0..<n]) [0..<n]"
proof (rule nth_equalityI)
  show "length (mat_sub (ones n n) (eye n))
          = length (map (\<lambda>i. map (\<lambda>j. if i = j then 0 else (1::real)) [0..<n]) [0..<n])"
    by (simp add: mat_sub_def ones_def eye_def)
next
  fix i assume "i < length (mat_sub (ones n n) (eye n))"
  then have i: "i < n"
    by (simp add: mat_sub_def ones_def eye_def)
  have "map2 (-) (replicate n (1::real)) (map (\<lambda>j. if i = j then 1 else 0) [0..<n])
          = map (\<lambda>j. if i = j then 0 else 1) [0..<n]"
    by (rule nth_equalityI) simp_all
  then show "mat_sub (ones n n) (eye n) ! i
               = map (\<lambda>i. map (\<lambda>j. if i = j then 0 else 1) [0..<n]) [0..<n] ! i"
    using i by (simp add: mat_sub_def ones_def eye_def)
qed


lemma build_mask_fits: "mask_fits bs nf (build_mask bs nf)"
  by (simp add: mask_fits_def fits_def build_mask_def tile_def mask_slice Let_def list_all_iff)







section \<open>The forward pass: state, loss and regularization\<close>

lemma mask_vfm_state:
  "snd (mask_vfm bs nf s) = s\<lparr>mask_cache := Some (fst (mask_vfm bs nf s))\<rparr>"
  by (simp add: mask_vfm_def Let_def split: option.splits)

lemma forward_state:
  "snd (forward ns val loc y is_test lv_floor s) = snd (mask_vfm (length val) (ncols val) s)"
  by (simp add: forward_def Let_def split: prod.splits)

lemma bias_term_cache [simp]:
  "bias_term ns y is_test lv_floor (s\<lparr>mask_cache := c\<rparr>) = bias_term ns y is_test lv_floor s"
  by (simp add: bias_term_def)

lemma coef_sample_cache [simp]:
  "coef_sample ns val loc is_test lv_floor (s\<lparr>mask_cache := c\<rparr>) = coef_sample ns val loc is_test lv_floor s"
  by (simp add: coef_sample_def Let_def cong: if_cong)

lemma vi_sample_cache [simp]:
  "vi_sample ns val loc is_test lv_floor (s\<lparr>mask_cache := c\<rparr>) = vi_sample ns val loc is_test lv_floor s"
  by (simp add: vi_sample_def Let_def cong: if_cong)

lemma pred_of_cache [simp]:
  "pred_of ns val loc y is_test lv_floor m (s\<lparr>mask_cache := c\<rparr>) = pred_of ns val loc y is_test lv_floor m s"
  by (simp add: pred_of_def Let_def cong: if_cong)

lemma forward_result:
  "fst (forward ns val loc y is_test lv_floor s) =
     bindE (pred_of ns val loc y is_test lv_floor (fst (mask_vfm (length val) (ncols val) s)) s)
       (\<lambda>pred. if total_nobs s = 0 then Inl ZeroDivision
          else Inr \<lparr>loss = mean_squared_error pred y + regt_of s * (real (length loc) / total_nobs s),
                    rmse = sqrt (mean_squared_error pred y),
                    reg0 = gaussian_kl_divergence [bias_mu s] [bias_lv s],
                    regt = regt_of s,
                    reg1 = gaussian_kl_divergence (slope_mu s) (slope_lv s),
                    reg2 = gaussian_kl_divergence (concat (latent_mu s)) (concat (latent_lv s)),
                    bias = bias_mu s\<rparr>)"
proof -
  obtain m s' where ms: "mask_vfm (length val) (ncols val) s = (m, s')"
    by (cases "mask_vfm (length val) (ncols val) s")
  have s': "s' = s\<lparr>mask_cache := Some m\<rparr>"
    using mask_vfm_state [of "length val" "ncols val" s] ms by simp
  show ?thesis
    by (simp add: forward_def ms s' Let_def regt_of_def cong: if_cong)
qed

lemma pred_of_loc_rows:
  assumes "pred_of ns val loc y is_test lv_floor m s = Inr pred"
  shows "map length loc = replicate (length val) (ncols val) \<and> length is_test = length val \<and> length y = length val"
  using assms
  by (auto simp add: pred_of_def bindE_def coef_sample_def bias_term_def add_vec_def slope_sum_def Let_def
        split: sum.splits if_splits)


lemmas forward_eval =
  forward_def pred_of_def bias_term_def coef_sample_def vi_sample_def intx_sum_def mul_const_def
  fits_def stretch_def mul3_def batch_outer_def batch_matmul_transb_def dot_def add_vec_def
  slope_sum_def mean_squared_error_def gaussian_kl_divergence_def gaussian_def embed_id_def
  ncols_def bindE_def mask_eval

text \<open>
  Claim C1. When a forward call returns, the loss it returns is the mean squared error
  between \<^verbatim>\<open>pred\<close> and \<^verbatim>\<open>y\<close> plus the summed regularization times \<open>B / total_nobs\<close>,
  where \<open>B\<close> is the batch size (the number of rows of \<^verbatim>\<open>val\<close>, which is then also that
  of \<^verbatim>\<open>loc\<close>) and the summed regularization is \<open>lambda1\<close> times the slope KL plus
  \<open>lambda2\<close> times the latent KL plus \<open>lambda0\<close> times each of the bias KL, the
  prior-latent KL and the prior-slope KL. \<open>total_nobs\<close> is not zero then.
\<close>

theorem forward_loss:
  assumes "forward ns val loc y is_test lv_floor s = (Inr lg, s')"
  shows "\<exists>pred. pred_of ns val loc y is_test lv_floor (fst (mask_vfm (length val) (ncols val) s)) s = Inr pred \<and>
           total_nobs s \<noteq> 0 \<and>
           loss lg = mean_squared_error pred y +
             (lambda1 s * gaussian_kl_divergence (slope_mu s) (slope_lv s)
              + lambda2 s * gaussian_kl_divergence (concat (latent_mu s)) (concat (latent_lv s))
              + lambda0 s * (gaussian_kl_divergence [bias_mu s] [bias_lv s]
                             + gaussian_kl_divergence (prior_latent_mu s) (prior_latent_lv s)
                             + gaussian_kl_divergence [prior_slope_mu s] [prior_slope_lv s]))
             * (real (length val) / total_nobs s)"
proof -
  let ?m = "fst (mask_vfm (length val) (ncols val) s)"
  have res: "fst (forward ns val loc y is_test lv_floor s) = Inr lg"
    using assms by simp
  then obtain pred where pred: "pred_of ns val loc y is_test lv_floor ?m s = Inr pred"
    by (cases "pred_of ns val loc y is_test lv_floor ?m s") (simp_all add: forward_result bindE_def)
  have nz: "total_nobs s \<noteq> 0"
    using res pred by (auto simp add: forward_result bindE_def split: if_splits)
  have rows: "length loc = length val"
  proof -
    have "map length loc = replicate (length val) (ncols val)"
      using pred_of_loc_rows [OF pred] by simp
    then have "length (map length loc) = length (replicate (length val) (ncols val))"
      by simp
    then show ?thesis by simp
  qed
  have "loss lg = mean_squared_error pred y + regt_of s * (real (length loc) / total_nobs s)"
    using res pred nz by (auto simp add: forward_result bindE_def)
  then have "loss lg = mean_squared_error pred y +
             (lambda1 s * gaussian_kl_divergence (slope_mu s) (slope_lv s)
              + lambda2 s * gaussian_kl_divergence (concat (latent_mu s)) (concat (latent_lv s))
              + lambda0 s * (gaussian_kl_divergence [bias_mu s] [bias_lv s]
                             + gaussian_kl_divergence (prior_latent_mu s) (prior_latent_lv s)
                             + gaussian_kl_divergence [prior_slope_mu s] [prior_slope_lv s]))
             * (real (length val) / total_nobs s)"
    by (simp add: regt_of_def rows algebra_simps)
  with pred nz show ?thesis by blast
qed

lemma example_forward:
  "forward no_noise [[1, 1]] [[0, 0]] [0] [0] (- 100) example_model =
     (Inr \<lparr>loss = 17, rmse = 4, reg0 = 0, regt = 1, reg1 = 1 / 2, reg2 = 1 / 2, bias = 0\<rparr>,
      example_model\<lparr>mask_cache := Some [[[0, 1], [1, 0]]]\<rparr>)"
  by (simp add: forward_eval example_model_def no_noise_def numeral_2_eq_2)

theorem forward_loss_witness:
  "forward no_noise [[1, 1]] [[0, 0]] [0] [0] (- 100) example_model =
     (Inr \<lparr>loss = 17, rmse = 4, reg0 = 0, regt = 1, reg1 = 1 / 2, reg2 = 1 / 2, bias = 0\<rparr>,
      example_model\<lparr>mask_cache := Some [[[0, 1], [1, 0]]]\<rparr>) \<and>
   (\<exists>pred. pred_of no_noise [[1, 1]] [[0, 0]] [0] [0] (- 100) (fst (mask_vfm 1 2 example_model)) example_model = Inr pred \<and>
      (17::real) = mean_squared_error pred [0] + (1 * (1 / 2) + 1 * (1 / 2) + 1 * (0 + 0 + 0)) * (1 / 1))"
  using example_forward forward_loss [OF example_forward]
  by (simp add: example_model_def gaussian_kl_divergence_def ncols_def numeral_2_eq_2)


text \<open>
  Claim C10. Whether it returns or raises, a forward call leaves the ten parameter
  tensors as they were: the object afterwards is the object before with at most
  \<^verbatim>\<open>_mask\<close> replaced, and it is the very same object when the cached mask has the batch
  size of the call.
\<close>

theorem forward_frame:
  "bias_mu (snd (forward ns val loc y is_test lv_floor s)) = bias_mu s \<and>
   bias_lv (snd (forward ns val loc y is_test lv_floor s)) = bias_lv s \<and>
   slope_mu (snd (forward ns val loc y is_test lv_floor s)) = slope_mu s \<and>
   slope_lv (snd (forward ns val loc y is_test lv_floor s)) = slope_lv s \<and>
   prior_slope_mu (snd (forward ns val loc y is_test lv_floor s)) = prior_slope_mu s \<and>
   prior_slope_lv (snd (forward ns val loc y is_test lv_floor s)) = prior_slope_lv s \<and>
   latent_mu (snd (forward ns val loc y is_test lv_floor s)) = latent_mu s \<and>
   latent_lv (snd (forward ns val loc y is_test lv_floor s)) = latent_lv s \<and>
   prior_latent_mu (snd (forward ns val loc y is_test lv_floor s)) = prior_latent_mu s \<and>
   prior_latent_lv (snd (forward ns val loc y is_test lv_floor s)) = prior_latent_lv s \<and>
   (\<exists>c. snd (forward ns val loc y is_test lv_floor s) = s\<lparr>mask_cache := c\<rparr>) \<and>
   (mask_cache s = Some cached \<and> length cached = length val \<longrightarrow>
      snd (forward ns val loc y is_test lv_floor s) = s)"
proof -
  let ?s' = "snd (forward ns val loc y is_test lv_floor s)"
  let ?m = "fst (mask_vfm (length val) (ncols val) s)"
  have upd: "?s' = s\<lparr>mask_cache := Some ?m\<rparr>"
    by (simp add: forward_state mask_vfm_state [symmetric])
  have hit: "?s' = s" if "mask_cache s = Some cached \<and> length cached = length val"
    using that by (simp add: forward_state mask_vfm_hit)
  have ex: "\<exists>c. ?s' = s\<lparr>mask_cache := c\<rparr>"
    using upd by blast
  have "bias_mu ?s' = bias_mu s" "bias_lv ?s' = bias_lv s"
       "slope_mu ?s' = slope_mu s" "slope_lv ?s' = slope_lv s"
       "prior_slope_mu ?s' = prior_slope_mu s" "prior_slope_lv ?s' = prior_slope_lv s"
       "latent_mu ?s' = latent_mu s" "latent_lv ?s' = latent_lv s"
       "prior_latent_mu ?s' = prior_latent_mu s" "prior_latent_lv ?s' = prior_latent_lv s"
    by (simp_all add: upd)
  with ex hit show ?thesis by blast
qed

theorem forward_frame_witness:
  "snd (forward no_noise [[1]] [[0]] [0] [0] (- 100) (example_model\<lparr>mask_cache := Some [[[0]]]\<rparr>))
     = example_model\<lparr>mask_cache := Some [[[0]]]\<rparr>"
  using forward_frame [of no_noise "[[1]]" "[[0]]" "[0]" "[0]" "- 100"
          "example_model\<lparr>mask_cache := Some [[[0]]]\<rparr>" "[[[0]]]"]
  by simp

section \<open>Prediction without interactions, the KL groups, failures and construction\<close>

lemma bias_term_latent:
  "bias_term (ns\<lparr>eps_latent := e\<rparr>) y is_test lv_floor
     (s\<lparr>latent_mu := a, latent_lv := b, prior_latent_mu := c, prior_latent_lv := d\<rparr>)
   = bias_term ns y is_test lv_floor s"
  by (simp add: bias_term_def)

lemma coef_sample_latent:
  "coef_sample (ns\<lparr>eps_latent := e\<rparr>) val loc is_test lv_floor
     (s\<lparr>latent_mu := a, latent_lv := b, prior_latent_mu := c, prior_latent_lv := d\<rparr>)
   = coef_sample ns val loc is_test lv_floor s"
  by (simp add: coef_sample_def Let_def cong: if_cong)

text \<open>
  Claim C9. With \<^verbatim>\<open>intx_term=False\<close>, a forward call that returns has computed
  \<^verbatim>\<open>pred\<close> as the bias plus the slope sum, and its loss is the mean squared error of that
  \<^verbatim>\<open>pred\<close> plus the scaled regularization. The bias and the slope sum read no latent
  parameter: the same call on a model whose latent tables and latent priors (and whose
  latent draws) are replaced by any others has, when it returns, the same
  \<^verbatim>\<open>rmse\<close> and the same loss once the regularization term is taken off.
\<close>

theorem no_interaction_pred:
  assumes off: "\<not> intx_term s"
    and run: "forward ns val loc y is_test lv_floor s = (Inr lg, s')"
  shows "\<exists>bias coef.
           bias_term ns y is_test lv_floor s = Inr bias \<and>
           coef_sample ns val loc is_test lv_floor s = Inr coef \<and>
           pred_of ns val loc y is_test lv_floor (fst (mask_vfm (length val) (ncols val) s)) s
             = Inr (map2 (+) bias (slope_sum coef val)) \<and>
           loss lg = mean_squared_error (map2 (+) bias (slope_sum coef val)) y
                       + regt lg * (real (length val) / total_nobs s) \<and>
           rmse lg = sqrt (mean_squared_error (map2 (+) bias (slope_sum coef val)) y) \<and>
           (\<forall>a b c d e lg2 s2.
              forward (ns\<lparr>eps_latent := e\<rparr>) val loc y is_test lv_floor
                (s\<lparr>latent_mu := a, latent_lv := b, prior_latent_mu := c, prior_latent_lv := d\<rparr>)
                = (Inr lg2, s2) \<longrightarrow>
              rmse lg2 = rmse lg \<and>
              loss lg2 - regt lg2 * (real (length val) / total_nobs s)
                = loss lg - regt lg * (real (length val) / total_nobs s))"
proof -
  let ?m = "fst (mask_vfm (length val) (ncols val) s)"
  have res: "fst (forward ns val loc y is_test lv_floor s) = Inr lg"
    using run by simp
  then obtain pred where pred: "pred_of ns val loc y is_test lv_floor ?m s = Inr pred"
    by (cases "pred_of ns val loc y is_test lv_floor ?m s") (simp_all add: forward_result bindE_def)
  from pred obtain bias where bias: "bias_term ns y is_test lv_floor s = Inr bias"
    by (cases "bias_term ns y is_test lv_floor s") (simp_all add: pred_of_def bindE_def)
  from pred bias obtain coef where coef: "coef_sample ns val loc is_test lv_floor s = Inr coef"
    by (cases "coef_sample ns val loc is_test lv_floor s") (simp_all add: pred_of_def bindE_def)
  have pred_eq: "pred = map2 (+) bias (slope_sum coef val)"
    using pred bias coef off
    by (auto simp add: pred_of_def bindE_def add_vec_def Let_def split: sum.splits if_splits)
  have nz: "total_nobs s \<noteq> 0"
    using res pred by (auto simp add: forward_result bindE_def split: if_splits)
  have rows: "length loc = length val"
  proof -
    have "length (map length loc) = length (replicate (length val) (ncols val))"
      using pred_of_loc_rows [OF pred] by simp
    then show ?thesis by simp
  qed
  have lg: "loss lg = mean_squared_error pred y + regt lg * (real (length val) / total_nobs s)"
           "rmse lg = sqrt (mean_squared_error pred y)"
    using res pred nz rows by (auto simp add: forward_result bindE_def)
  have indep: "rmse lg2 = rmse lg \<and>
               loss lg2 - regt lg2 * (real (length val) / total_nobs s)
                 = loss lg - regt lg * (real (length val) / total_nobs s)"
    if run2: "forward (ns\<lparr>eps_latent := e\<rparr>) val loc y is_test lv_floor
                (s\<lparr>latent_mu := a, latent_lv := b, prior_latent_mu := c, prior_latent_lv := d\<rparr>)
                = (Inr lg2, s2)"
    for a b c d e lg2 s2
  proof -
    let ?s2 = "s\<lparr>latent_mu := a, latent_lv := b, prior_latent_mu := c, prior_latent_lv := d\<rparr>"
    let ?ns2 = "ns\<lparr>eps_latent := e\<rparr>"
    let ?m2 = "fst (mask_vfm (length val) (ncols val) ?s2)"
    have res2: "fst (forward ?ns2 val loc y is_test lv_floor ?s2) = Inr lg2"
      using run2 by simp
    then obtain pred2 where pred2: "pred_of ?ns2 val loc y is_test lv_floor ?m2 ?s2 = Inr pred2"
      by (cases "pred_of ?ns2 val loc y is_test lv_floor ?m2 ?s2") (simp_all add: forward_result bindE_def)
    have b2: "bias_term ?ns2 y is_test lv_floor ?s2 = Inr bias"
      using bias by (simp add: bias_term_latent)
    have c2: "coef_sample ?ns2 val loc is_test lv_floor ?s2 = Inr coef"
      using coef by (simp add: coef_sample_latent)
    have "pred2 = map2 (+) bias (slope_sum coef val)"
      using pred2 b2 c2 off
      by (auto simp add: pred_of_def bindE_def add_vec_def Let_def split: sum.splits if_splits)
    then have same: "pred2 = pred"
      using pred_eq by simp
    have "loss lg2 = mean_squared_error pred2 y + regt lg2 * (real (length val) / total_nobs s)"
         "rmse lg2 = sqrt (mean_squared_error pred2 y)"
      using res2 pred2 nz rows by (auto simp add: forward_result bindE_def)
    then show ?thesis
      using lg same by simp
  qed
  show ?thesis
    using bias coef pred pred_eq lg indep by blast
qed


lemma flat_forward:
  "forward no_noise [[1, 1]] [[0, 0]] [0] [0] (- 100) flat_model =
     (Inr \<lparr>loss = 5, rmse = 2, reg0 = 0, regt = 1, reg1 = 1 / 2, reg2 = 1 / 2, bias = 0\<rparr>,
      flat_model\<lparr>mask_cache := Some [[[0, 1], [1, 0]]]\<rparr>)"
  by (simp add: forward_eval flat_model_def example_model_def no_noise_def numeral_2_eq_2)

lemma flat_forward_other_latent:
  "forward (no_noise\<lparr>eps_latent := \<lambda>_ _ _. 1\<rparr>) [[1, 1]] [[0, 0]] [0] [0] (- 100)
     (flat_model\<lparr>latent_mu := [[3]], latent_lv := [[0]], prior_latent_mu := [1], prior_latent_lv := [0]\<rparr>) =
     (Inr \<lparr>loss = 19 / 2, rmse = 2, reg0 = 0, regt = 11 / 2, reg1 = 1 / 2, reg2 = 9 / 2, bias = 0\<rparr>,
      flat_model\<lparr>latent_mu := [[3]], latent_lv := [[0]], prior_latent_mu := [1], prior_latent_lv := [0],
                 mask_cache := Some [[[0, 1], [1, 0]]]\<rparr>)"
  by (simp add: forward_eval flat_model_def example_model_def no_noise_def numeral_2_eq_2)

theorem no_interaction_pred_witness:
  "\<not> intx_term flat_model \<and>
   fst (forward no_noise [[1, 1]] [[0, 0]] [0] [0] (- 100) flat_model) =
     Inr \<lparr>loss = 5, rmse = 2, reg0 = 0, regt = 1, reg1 = 1 / 2, reg2 = 1 / 2, bias = 0\<rparr> \<and>
   pred_of no_noise [[1, 1]] [[0, 0]] [0] [0] (- 100) (fst (mask_vfm 1 2 flat_model)) flat_model = Inr [2] \<and>
   fst (forward (no_noise\<lparr>eps_latent := \<lambda>_ _ _. 1\<rparr>) [[1, 1]] [[0, 0]] [0] [0] (- 100)
     (flat_model\<lparr>latent_mu := [[3]], latent_lv := [[0]], prior_latent_mu := [1], prior_latent_lv := [0]\<rparr>)) =
     Inr \<lparr>loss = 19 / 2, rmse = 2, reg0 = 0, regt = 11 / 2, reg1 = 1 / 2, reg2 = 9 / 2, bias = 0\<rparr>"
proof -
  have off: "\<not> intx_term flat_model"
    by (simp add: flat_model_def)
  have "pred_of no_noise [[1, 1]] [[0, 0]] [0] [0] (- 100) (fst (mask_vfm 1 2 flat_model)) flat_model = Inr [2]"
    by (simp add: forward_eval flat_model_def example_model_def no_noise_def numeral_2_eq_2)
  then show ?thesis
    using off flat_forward flat_forward_other_latent no_interaction_pred [OF off flat_forward]
    by simp
qed

lemma gaussian_kl_divergence_standard:
  "length mean = length ln_var \<Longrightarrow> gaussian_kl_divergence mean ln_var = kl_sum mean ln_var 0 0"
proof (induction mean ln_var rule: list_induct2)
  case Nil
  then show ?case by (simp add: gaussian_kl_divergence_def kl_sum_def)
next
  case (Cons m ms l ls)
  then show ?case
    by (simp add: gaussian_kl_divergence_def kl_sum_def kl_normal_def power2_eq_square algebra_simps)
qed

lemma length_concat_rows:
  "list_all (\<lambda>row. length row = d) m \<Longrightarrow> length (concat m) = length m * d"
  by (induction m) simp_all

text \<open>
  Claim C2, as amended. The regularization is computed in five groups (bias, slope,
  latent, prior-latent, prior-slope), and every group, the slope and latent tables
  included, is measured against the standard normal law: the learned priors enter through
  their own two groups only.
\<close>

theorem forward_kl_standard_normal:
  assumes wf: "wf_model s"
    and run: "forward ns val loc y is_test lv_floor s = (Inr lg, s')"
  shows "reg0 lg = kl_sum [bias_mu s] [bias_lv s] 0 0 \<and>
         reg1 lg = kl_sum (slope_mu s) (slope_lv s) 0 0 \<and>
         reg2 lg = kl_sum (concat (latent_mu s)) (concat (latent_lv s)) 0 0 \<and>
         regt lg = lambda0 s * (reg0 lg
                                + kl_sum (prior_latent_mu s) (prior_latent_lv s) 0 0
                                + kl_sum [prior_slope_mu s] [prior_slope_lv s] 0 0)
                   + lambda1 s * reg1 lg + lambda2 s * reg2 lg"
proof -
  let ?m = "fst (mask_vfm (length val) (ncols val) s)"
  have res: "fst (forward ns val loc y is_test lv_floor s) = Inr lg"
    using run by simp
  then obtain pred where pred: "pred_of ns val loc y is_test lv_floor ?m s = Inr pred"
    by (cases "pred_of ns val loc y is_test lv_floor ?m s") (simp_all add: forward_result bindE_def)
  have nz: "total_nobs s \<noteq> 0"
    using res pred by (auto simp add: forward_result bindE_def split: if_splits)
  have lg: "reg0 lg = gaussian_kl_divergence [bias_mu s] [bias_lv s]"
           "reg1 lg = gaussian_kl_divergence (slope_mu s) (slope_lv s)"
           "reg2 lg = gaussian_kl_divergence (concat (latent_mu s)) (concat (latent_lv s))"
           "regt lg = regt_of s"
    using res pred nz by (auto simp add: forward_result bindE_def)
  have l1: "length (slope_mu s) = length (slope_lv s)"
    using wf by (simp add: wf_model_def)
  have l2: "length (concat (latent_mu s)) = length (concat (latent_lv s))"
  proof -
    have "length (concat (latent_mu s)) = length (latent_mu s) * n_dim s"
      using wf by (intro length_concat_rows) (simp add: wf_model_def)
    moreover have "length (concat (latent_lv s)) = length (latent_lv s) * n_dim s"
      using wf by (intro length_concat_rows) (simp add: wf_model_def)
    moreover have "length (latent_mu s) = length (latent_lv s)"
      using wf by (simp add: wf_model_def)
    ultimately show ?thesis by simp
  qed
  have l3: "length (prior_latent_mu s) = length (prior_latent_lv s)"
    using wf by (simp add: wf_model_def)
  have k0: "reg0 lg = kl_sum [bias_mu s] [bias_lv s] 0 0"
    by (simp add: lg gaussian_kl_divergence_standard)
  have k1: "reg1 lg = kl_sum (slope_mu s) (slope_lv s) 0 0"
    by (simp add: lg gaussian_kl_divergence_standard [OF l1])
  have k2: "reg2 lg = kl_sum (concat (latent_mu s)) (concat (latent_lv s)) 0 0"
    by (simp add: lg gaussian_kl_divergence_standard [OF l2])
  have k3: "gaussian_kl_divergence (prior_latent_mu s) (prior_latent_lv s)
              = kl_sum (prior_latent_mu s) (prior_latent_lv s) 0 0"
    by (rule gaussian_kl_divergence_standard [OF l3])
  have k4: "gaussian_kl_divergence [prior_slope_mu s] [prior_slope_lv s]
              = kl_sum [prior_slope_mu s] [prior_slope_lv s] 0 0"
    by (simp add: gaussian_kl_divergence_standard)
  have "regt lg = lambda0 s * (reg0 lg
                                + kl_sum (prior_latent_mu s) (prior_latent_lv s) 0 0
                                + kl_sum [prior_slope_mu s] [prior_slope_lv s] 0 0)
                   + lambda1 s * reg1 lg + lambda2 s * reg2 lg"
    unfolding lg(4) regt_of_def k3 k4 lg(1-3) [symmetric]
    by (simp add: algebra_simps)
  with k0 k1 k2 show ?thesis by simp
qed

theorem forward_kl_standard_normal_witness:
  "wf_model example_model \<and>
   forward no_noise [[1, 1]] [[0, 0]] [0] [0] (- 100) example_model =
     (Inr \<lparr>loss = 17, rmse = 4, reg0 = 0, regt = 1, reg1 = 1 / 2, reg2 = 1 / 2, bias = 0\<rparr>,
      example_model\<lparr>mask_cache := Some [[[0, 1], [1, 0]]]\<rparr>) \<and>
   kl_sum [0] [0] 0 0 = 0 \<and> kl_sum [1] [0] 0 0 = 1 / 2"
proof -
  have wf: "wf_model example_model"
    by (simp add: wf_model_def example_model_def)
  show ?thesis
    using wf example_forward forward_kl_standard_normal [OF wf example_forward]
    by (simp add: example_model_def)
qed

text \<open>
  Claim C2 as stated fails: on a model whose slope prior has mean 1 and log-variance
  \<open>ln 2\<close> the slope term \<^verbatim>\<open>reg1\<close> is 1/2, the divergence of the slope table from the
  standard normal, while the divergence from the learned prior is smaller, whether the
  posterior is read as the table entry or as the table entry plus the prior.
\<close>

theorem slope_kl_ignores_prior:
  "(case fst (forward no_noise [[1]] [[0]] [0] [0] (- 100) prior_model) of
      Inl e \<Rightarrow> False
    | Inr lg \<Rightarrow>
        reg1 lg = 1 / 2 \<and>
        kl_sum (slope_mu prior_model) (slope_lv prior_model)
          (prior_slope_mu prior_model) (prior_slope_lv prior_model) < 1 / 2 \<and>
        kl_sum (map (\<lambda>m. m + prior_slope_mu prior_model) (slope_mu prior_model))
          (map (\<lambda>l. l + prior_slope_lv prior_model) (slope_lv prior_model))
          (prior_slope_mu prior_model) (prior_slope_lv prior_model) < 1 / 2)"
proof -
  have "ln (2::real) < 1"
    by (rule ln_2_less_1)
  then show ?thesis
    by (simp add: forward_eval prior_model_def example_model_def no_noise_def kl_sum_def kl_normal_def)
qed


lemma embed_id_error: "embed_id W loc = Inl e \<Longrightarrow> e = IndexOutOfRange"
  by (simp add: embed_id_def split: if_splits)

lemma pred_of_error:
  assumes "pred_of ns val loc y is_test lv_floor m s = Inl e"
  shows "e = ShapeMismatch \<or> e = IndexOutOfRange"
  using assms
  by (auto simp add: pred_of_def bias_term_def coef_sample_def vi_sample_def intx_sum_def
        mul_const_def add_vec_def bindE_def Let_def
        split: sum.splits if_splits dest: embed_id_error)

text \<open>
  Claim C7, as amended. A forward call whose \<^verbatim>\<open>y\<close>, \<^verbatim>\<open>is_test\<close> or \<^verbatim>\<open>loc\<close> disagrees
  with the shape of \<^verbatim>\<open>val\<close> raises, with a shape error or, when a feature number of
  \<^verbatim>\<open>loc\<close> is met first that is outside the tables, with an index error. Nothing checks
  the shapes beforehand: the object is then as the call of \<^verbatim>\<open>mask\<close> at the start of the
  pass left it.
\<close>

theorem forward_mismatch_after_mask:
  assumes "length y \<noteq> length val \<or> length is_test \<noteq> length val \<or>
           map length loc \<noteq> replicate (length val) (ncols val)"
  shows "(fst (forward ns val loc y is_test lv_floor s) = Inl ShapeMismatch \<or>
          fst (forward ns val loc y is_test lv_floor s) = Inl IndexOutOfRange) \<and>
         snd (forward ns val loc y is_test lv_floor s) = snd (mask_vfm (length val) (ncols val) s)"
proof -
  let ?m = "fst (mask_vfm (length val) (ncols val) s)"
  obtain e where e: "pred_of ns val loc y is_test lv_floor ?m s = Inl e"
  proof (cases "pred_of ns val loc y is_test lv_floor ?m s")
    case (Inl e)
    then show ?thesis by (rule that)
  next
    case (Inr pred)
    from pred_of_loc_rows [OF Inr] assms show ?thesis by simp
  qed
  have "fst (forward ns val loc y is_test lv_floor s) = Inl e"
    by (simp add: forward_result e bindE_def)
  with pred_of_error [OF e] show ?thesis
    by (auto simp add: forward_state)
qed

theorem forward_mismatch_after_mask_witness:
  "length [0, 0 :: real] \<noteq> length [[1 :: real]] \<and>
   fst (forward no_noise [[1]] [[0]] [0, 0] [0, 0] (- 100) example_model) = Inl ShapeMismatch \<and>
   snd (forward no_noise [[1]] [[0]] [0, 0] [0, 0] (- 100) example_model) =
     example_model\<lparr>mask_cache := Some [[[0]]]\<rparr>"
proof -
  have h: "length [0, 0 :: real] \<noteq> length [[1 :: real]] \<or> length [0, 0 :: real] \<noteq> length [[1 :: real]] \<or>
           map length [[0 :: nat]] \<noteq> replicate (length [[1 :: real]]) (ncols [[1 :: real]])"
    by simp
  show ?thesis
    using forward_mismatch_after_mask [OF h, of no_noise "- 100" example_model]
    by (simp add: forward_eval example_model_def no_noise_def)
qed

text \<open>
  Claim C7 as stated fails: a call with one row in \<^verbatim>\<open>val\<close> and two entries in \<^verbatim>\<open>y\<close>
  and \<^verbatim>\<open>is_test\<close> raises, and the mask cache, empty before, holds a mask afterwards.
\<close>

theorem forward_mismatch_mutates_cache:
  "fst (forward no_noise [[1]] [[0]] [0, 0] [0, 0] (- 100) example_model) = Inl ShapeMismatch \<and>
   mask_cache example_model = None \<and>
   mask_cache (snd (forward no_noise [[1]] [[0]] [0, 0] [0, 0] (- 100) example_model)) = Some [[[0]]]"
  by (simp add: forward_eval example_model_def no_noise_def)

text \<open>
  Claim C8, as amended. The constructor validates nothing itself. It fails exactly when
  \<^verbatim>\<open>n_features\<close> is missing or a size is negative (the array allocation refuses);
  sizes of zero and any lambdas are accepted, and the model built stores the lambdas as
  given, has parameter arrays of the configured shapes and an empty mask cache.
\<close>

theorem init_vfm_checks:
  "((\<exists>m. init_vfm rnd cfg = Inr m) \<longleftrightarrow>
      (\<exists>n. c_n_features cfg = Some n \<and> 0 \<le> n \<and> 0 \<le> c_n_dim cfg)) \<and>
   (init_vfm rnd cfg = Inr m \<longrightarrow>
      lambda0 m = c_lambda0 cfg \<and> lambda1 m = c_lambda1 cfg \<and> lambda2 m = c_lambda2 cfg \<and>
      int (n_features m) = the (c_n_features cfg) \<and> int (n_dim m) = c_n_dim cfg \<and>
      wf_model m \<and> mask_cache m = None)"
  by (auto simp add: init_vfm_def Let_def wf_model_def list_all_iff split: option.splits if_splits)

theorem init_vfm_checks_witness:
  "(\<exists>m. init_vfm zero_randn example_config = Inr m \<and> lambda0 m = - 1 \<and> wf_model m)"
proof -
  obtain m where m: "init_vfm zero_randn example_config = Inr m"
    using init_vfm_checks [of zero_randn example_config]
    by (auto simp add: example_config_def)
  then show ?thesis
    using init_vfm_checks [of zero_randn example_config m]
    by (simp add: example_config_def)
qed

text \<open>
  Claim C8 as stated fails: construction with \<^verbatim>\<open>lambda0 = -1\<close> succeeds and stores it,
  and construction with \<^verbatim>\<open>n_features = 0\<close> and \<^verbatim>\<open>n_dim = 0\<close> succeeds with empty
  tables.
\<close>

theorem init_vfm_negative_lambda:
  "(case init_vfm zero_randn example_config of
      Inl e \<Rightarrow> False
    | Inr m \<Rightarrow> c_lambda0 example_config < 0 \<and> lambda0 m = - 1 \<and> n_features m = 1 \<and> n_dim m = 1) \<and>
   (case init_vfm zero_randn (example_config\<lparr>c_n_features := Some 0, c_n_dim := 0\<rparr>) of
      Inl e \<Rightarrow> False
    | Inr m \<Rightarrow> n_features m = 0 \<and> n_dim m = 0 \<and> slope_mu m = [] \<and> latent_mu m = [])"
  by (simp add: init_vfm_def example_config_def zero_randn_def Let_def)

section \<open>A valid forward pass in closed form\<close>

lemma sum_list_nth: "sum_list xs = (\<Sum>i<length xs. (xs ! i :: real))"
  by (simp add: sum_list_sum_nth atLeast0LessThan)

lemma sum_list_map2:
  fixes f :: "'a \<Rightarrow> 'b \<Rightarrow> real"
  assumes "length xs = n" "length ys = n"
  shows "sum_list (map2 f xs ys) = (\<Sum>i<n. f (xs ! i) (ys ! i))"
proof -
  have "sum_list (map2 f xs ys) = (\<Sum>i<length (map2 f xs ys). map2 f xs ys ! i)"
    by (rule sum_list_nth)
  also have "\<dots> = (\<Sum>i<n. f (xs ! i) (ys ! i))"
    using assms by (intro sum.cong) simp_all
  finally show ?thesis .
qed

lemma dot_index:
  assumes "length u = d" "length v = d"
  shows "dot u v = (\<Sum>k<d. u ! k * v ! k)"
  unfolding dot_def by (rule sum_list_map2 [OF assms])

lemma sum_rows:
  fixes T :: mat
  assumes "length T = n" "\<And>i. i < n \<Longrightarrow> length (T ! i) = m"
  shows "sum_list (map sum_list T) = (\<Sum>i<n. \<Sum>j<m. T ! i ! j)"
proof -
  have "sum_list (map sum_list T) = (\<Sum>i<length (map sum_list T). map sum_list T ! i)"
    by (rule sum_list_nth)
  also have "\<dots> = (\<Sum>i<n. sum_list (T ! i))"
    using assms(1) by (intro sum.cong) simp_all
  also have "\<dots> = (\<Sum>i<n. \<Sum>j<m. T ! i ! j)"
    using assms(2) by (intro sum.cong) (simp_all add: sum_list_nth)
  finally show ?thesis .
qed

text \<open>One batch slice of the masked product.\<close>

lemma masked_slice:
  fixes V :: mat and x :: vec and Mr :: mat
  assumes V: "length V = nf" "\<And>i. i < nf \<Longrightarrow> length (V ! i) = d"
    and x: "length x = nf"
    and Mr: "length Mr = nf" "\<And>i. i < nf \<Longrightarrow> length (Mr ! i) = nf"
  defines "T \<equiv> map2 (map2 (*)) (map2 (map2 (*)) (map (\<lambda>u. map (\<lambda>v. dot u v) V) V)
                                          (map (\<lambda>p. map (\<lambda>q. p * q) x) x)) Mr"
  shows "length T = nf"
    and "\<And>i. i < nf \<Longrightarrow> length (T ! i) = nf"
    and "\<And>i j. i < nf \<Longrightarrow> j < nf \<Longrightarrow>
           T ! i ! j = (\<Sum>k<d. V ! i ! k * V ! j ! k) * (x ! i * x ! j) * Mr ! i ! j"
proof -
  show "length T = nf"
    using V(1) x Mr(1) by (simp add: T_def)
  show "length (T ! i) = nf" if "i < nf" for i
    using that V(1) x Mr by (simp add: T_def)
  show "T ! i ! j = (\<Sum>k<d. V ! i ! k * V ! j ! k) * (x ! i * x ! j) * Mr ! i ! j"
    if "i < nf" "j < nf" for i j
    using that V x Mr by (simp add: T_def dot_index [of _ d])
qed


lemma stretch_length: "fits n xs \<Longrightarrow> length (stretch n xs) = n"
  by (simp add: fits_def stretch_def)

lemma stretch_nth:
  assumes "fits n xs" "list_all P xs" "i < n"
  shows "P (stretch n xs ! i)"
proof (cases "length xs = n")
  case True
  then show ?thesis
    using assms by (simp add: stretch_def list_all_length)
next
  case False
  then have one: "length xs = 1"
    using assms(1) by (simp add: fits_def)
  then have "xs \<noteq> []" by auto
  then have "P (hd xs)"
    using assms(2) by (cases xs) simp_all
  then show ?thesis
    using False assms(3) by (simp add: stretch_def)
qed

lemma mask_used_shape:
  assumes "mask_fits (length val) (ncols val) (fst (mask_vfm (length val) (ncols val) s))"
  shows "length (mask_used val s) = length val"
    and "\<And>r. r < length val \<Longrightarrow> length (mask_used val s ! r) = ncols val"
    and "\<And>r i. r < length val \<Longrightarrow> i < ncols val \<Longrightarrow> length (mask_used val s ! r ! i) = ncols val"
proof -
  let ?bs = "length val" and ?nf = "ncols val"
  let ?c = "fst (mask_vfm ?bs ?nf s)"
  let ?g = "\<lambda>sl. stretch ?nf (map (stretch ?nf) sl)"
  let ?Q = "\<lambda>t::mat. length t = ?nf \<and> list_all (\<lambda>row. length row = ?nf) t"
  have fit: "fits ?bs (map ?g ?c)"
    using assms by (simp add: mask_fits_def fits_def)
  have each: "list_all ?Q (map ?g ?c)"
  proof (rule iffD1 [OF Ball_set], intro ballI)
    fix t assume "t \<in> set (map ?g ?c)"
    then obtain sl where sl: "sl \<in> set ?c" and t: "t = ?g sl" by auto
    have f1: "fits ?nf sl" and f2: "list_all (fits ?nf) sl"
      using assms sl by (auto simp add: mask_fits_def list_all_iff)
    have a: "fits ?nf (map (stretch ?nf) sl)"
      using f1 by (simp add: fits_def)
    have b: "list_all (\<lambda>row. length row = ?nf) (map (stretch ?nf) sl)"
      using f2 by (simp add: list_all_iff stretch_length)
    have "length t = ?nf"
      using a by (simp add: t stretch_length)
    moreover have "list_all (\<lambda>row. length row = ?nf) t"
      unfolding list_all_length
    proof (intro allI impI)
      fix i assume "i < length t"
      then have "i < ?nf" using \<open>length t = ?nf\<close> by simp
      from stretch_nth [OF a b this] show "length (t ! i) = ?nf"
        by (simp add: t)
    qed
    ultimately show "?Q t" by simp
  qed
  show "length (mask_used val s) = ?bs"
    using fit by (simp add: mask_used_def stretch_length)
  have Q: "?Q (mask_used val s ! r)" if "r < ?bs" for r
    using stretch_nth [OF fit each that] by (simp add: mask_used_def)
  show "length (mask_used val s ! r) = ?nf" if "r < ?bs" for r
    using Q [OF that] by simp
  show "length (mask_used val s ! r ! i) = ?nf" if "r < ?bs" "i < ?nf" for r i
    using Q [OF that(1)] that(2) by (simp add: list_all_length)
qed


lemma valid_call_rows:
  assumes "valid_call val loc y is_test s"
  shows "length loc = length val"
    and "\<And>r. r < length val \<Longrightarrow> length (loc ! r) = ncols val"
    and "\<And>r. r < length val \<Longrightarrow> length (val ! r) = ncols val"
    and "\<And>r i. r < length val \<Longrightarrow> i < ncols val \<Longrightarrow> loc ! r ! i < n_features s"
proof -
  have shp: "map length loc = replicate (length val) (ncols val)"
    using assms by (simp add: valid_call_def)
  then have "length (map length loc) = length (replicate (length val) (ncols val))"
    by simp
  then show len: "length loc = length val" by simp
  show row: "length (loc ! r) = ncols val" if "r < length val" for r
  proof -
    have "map length loc ! r = replicate (length val) (ncols val) ! r"
      using shp by simp
    then show ?thesis using that len by simp
  qed
  show "length (val ! r) = ncols val" if "r < length val" for r
    using assms that by (simp add: valid_call_def list_all_length)
  show "loc ! r ! i < n_features s" if "r < length val" "i < ncols val" for r i
    using assms that len row [OF that(1)] by (simp add: valid_call_def list_all_length)
qed

lemma embed_id_ok:
  "list_all (list_all (\<lambda>i. i < length W)) loc \<Longrightarrow> embed_id W loc = Inr (map (map (\<lambda>i. W ! i)) loc)"
  by (simp add: embed_id_def)

lemma bias_term_ok:
  assumes "valid_call val loc y is_test s"
  shows "bias_term ns y is_test lv_floor s = Inr (map (bias_at ns is_test lv_floor s) [0..<length val])"
  using assms by (simp add: bias_term_def valid_call_def bias_at_def)

lemma coef_sample_ok:
  assumes wf: "wf_model s" and ok: "valid_call val loc y is_test s"
  shows "coef_sample ns val loc is_test lv_floor s =
           Inr (map (\<lambda>r. map (coef_at ns loc is_test lv_floor s r) [0..<ncols val]) [0..<length val])"
proof -
  note rows = valid_call_rows [OF ok]
  have idx: "list_all (list_all (\<lambda>i. i < n_features s)) loc"
    using ok by (simp add: valid_call_def)
  have e1: "embed_id (slope_mu s) loc = Inr (map (map (\<lambda>i. slope_mu s ! i)) loc)"
    using idx wf by (intro embed_id_ok) (simp add: wf_model_def)
  have e2: "embed_id (slope_lv s) loc = Inr (map (map (\<lambda>i. slope_lv s ! i)) loc)"
    using idx wf by (intro embed_id_ok) (simp add: wf_model_def)
  have shp: "map length loc = replicate (length val) (ncols val)" and it: "length is_test = length val"
    using ok by (simp_all add: valid_call_def)
  have "map (\<lambda>r. map (\<lambda>i. gaussian (eps_slope ns r i)
                 (map (map (\<lambda>i. slope_mu s ! i)) loc ! r ! i + prior_slope_mu s)
                 (map (map (\<lambda>i. slope_lv s ! i)) loc ! r ! i + prior_slope_lv s + is_test ! r * lv_floor))
               [0..<ncols val]) [0..<length val]
        = map (\<lambda>r. map (coef_at ns loc is_test lv_floor s r) [0..<ncols val]) [0..<length val]"
    using rows(1,2) by (intro map_cong refl) (simp add: coef_at_def)
  then show ?thesis
    by (simp add: coef_sample_def e1 e2 shp it bindE_def Let_def)
qed

lemma vi_sample_ok:
  assumes wf: "wf_model s" and ok: "valid_call val loc y is_test s"
  shows "vi_sample ns val loc is_test lv_floor s =
           Inr (map (\<lambda>r. map (\<lambda>i. map (vi_at ns loc is_test lv_floor s r i) [0..<n_dim s])
                              [0..<ncols val]) [0..<length val])"
proof -
  note rows = valid_call_rows [OF ok]
  have idx: "list_all (list_all (\<lambda>i. i < n_features s)) loc"
    using ok by (simp add: valid_call_def)
  have e1: "embed_id (latent_mu s) loc = Inr (map (map (\<lambda>i. latent_mu s ! i)) loc)"
    using idx wf by (intro embed_id_ok) (simp add: wf_model_def)
  have e2: "embed_id (latent_lv s) loc = Inr (map (map (\<lambda>i. latent_lv s ! i)) loc)"
    using idx wf by (intro embed_id_ok) (simp add: wf_model_def)
  have shp: "map length loc = replicate (length val) (ncols val)" and it: "length is_test = length val"
    using ok by (simp_all add: valid_call_def)
  have "map (\<lambda>r. map (\<lambda>i. map (\<lambda>k. gaussian (eps_latent ns r i k)
                 (map (map (\<lambda>i. latent_mu s ! i)) loc ! r ! i ! k + prior_latent_mu s ! k)
                 (map (map (\<lambda>i. latent_lv s ! i)) loc ! r ! i ! k + prior_latent_lv s ! k
                    + is_test ! r * lv_floor))
               [0..<n_dim s]) [0..<ncols val]) [0..<length val]
        = map (\<lambda>r. map (\<lambda>i. map (vi_at ns loc is_test lv_floor s r i) [0..<n_dim s])
                 [0..<ncols val]) [0..<length val]"
    using rows(1,2) by (intro map_cong refl) (simp add: vi_at_def)
  then show ?thesis
    by (simp add: vi_sample_def e1 e2 shp it bindE_def Let_def)
qed

lemma slope_sum_ok:
  assumes "\<And>r. r < length val \<Longrightarrow> length (val ! r) = nf"
  shows "slope_sum (map (\<lambda>r. map (c r) [0..<nf]) [0..<length val]) val
           = map (\<lambda>r. \<Sum>i<nf. c r i * val ! r ! i) [0..<length val]"
proof (rule nth_equalityI)
  show "length (slope_sum (map (\<lambda>r. map (c r) [0..<nf]) [0..<length val]) val)
          = length (map (\<lambda>r. \<Sum>i<nf. c r i * val ! r ! i) [0..<length val])"
    by (simp add: slope_sum_def)
next
  fix r assume "r < length (slope_sum (map (\<lambda>r. map (c r) [0..<nf]) [0..<length val]) val)"
  then have r: "r < length val"
    by (simp add: slope_sum_def)
  have "sum_list (map2 (*) (map (c r) [0..<nf]) (val ! r)) = (\<Sum>i<nf. map (c r) [0..<nf] ! i * val ! r ! i)"
    using assms [OF r] by (intro sum_list_map2) simp_all
  also have "\<dots> = (\<Sum>i<nf. c r i * val ! r ! i)"
    by (intro sum.cong) simp_all
  finally show "slope_sum (map (\<lambda>r. map (c r) [0..<nf]) [0..<length val]) val ! r
                  = map (\<lambda>r. \<Sum>i<nf. c r i * val ! r ! i) [0..<length val] ! r"
    using r by (simp add: slope_sum_def)
qed


lemma masked_sum:
  fixes vi :: ten3 and val :: mat and M :: ten3
  assumes vi: "length vi = bs" "\<And>r. r < bs \<Longrightarrow> length (vi ! r) = nf"
              "\<And>r i. r < bs \<Longrightarrow> i < nf \<Longrightarrow> length (vi ! r ! i) = d"
    and val: "length val = bs" "\<And>r. r < bs \<Longrightarrow> length (val ! r) = nf"
    and M: "length M = bs" "\<And>r. r < bs \<Longrightarrow> length (M ! r) = nf"
           "\<And>r i. r < bs \<Longrightarrow> i < nf \<Longrightarrow> length (M ! r ! i) = nf"
  shows "map (\<lambda>sl. sum_list (map sum_list sl))
           (mul3 (mul3 (batch_matmul_transb vi vi) (batch_outer val val)) M)
         = map (\<lambda>r. \<Sum>i<nf. \<Sum>j<nf.
                  (\<Sum>k<d. vi ! r ! i ! k * vi ! r ! j ! k) * (val ! r ! i * val ! r ! j) * M ! r ! i ! j)
             [0..<bs]"
proof (rule nth_equalityI)
  let ?P = "mul3 (mul3 (batch_matmul_transb vi vi) (batch_outer val val)) M"
  have len: "length ?P = bs"
    using vi(1) val(1) M(1) by (simp add: mul3_def batch_matmul_transb_def batch_outer_def)
  show "length (map (\<lambda>sl. sum_list (map sum_list sl)) ?P)
          = length (map (\<lambda>r. \<Sum>i<nf. \<Sum>j<nf.
                  (\<Sum>k<d. vi ! r ! i ! k * vi ! r ! j ! k) * (val ! r ! i * val ! r ! j) * M ! r ! i ! j)
             [0..<bs])"
    using len by simp
  fix r assume "r < length (map (\<lambda>sl. sum_list (map sum_list sl)) ?P)"
  then have r: "r < bs" using len by simp
  let ?T = "map2 (map2 (*)) (map2 (map2 (*)) (map (\<lambda>u. map (\<lambda>v. dot u v) (vi ! r)) (vi ! r))
                                          (map (\<lambda>p. map (\<lambda>q. p * q) (val ! r)) (val ! r))) (M ! r)"
  have slice: "?P ! r = ?T"
    using r vi(1) val(1) M(1) by (simp add: mul3_def batch_matmul_transb_def batch_outer_def)
  note ms = masked_slice [of "vi ! r" nf d "val ! r" "M ! r",
      OF vi(2) [OF r] vi(3) [OF r] val(2) [OF r] M(2) [OF r] M(3) [OF r]]
  have "sum_list (map sum_list ?T) = (\<Sum>i<nf. \<Sum>j<nf. ?T ! i ! j)"
    using ms(1,2) by (intro sum_rows) simp_all
  also have "\<dots> = (\<Sum>i<nf. \<Sum>j<nf.
                  (\<Sum>k<d. vi ! r ! i ! k * vi ! r ! j ! k) * (val ! r ! i * val ! r ! j) * M ! r ! i ! j)"
    using ms(3) by (intro sum.cong refl) simp
  finally show "map (\<lambda>sl. sum_list (map sum_list sl)) ?P ! r
                  = map (\<lambda>r. \<Sum>i<nf. \<Sum>j<nf.
                      (\<Sum>k<d. vi ! r ! i ! k * vi ! r ! j ! k) * (val ! r ! i * val ! r ! j) * M ! r ! i ! j)
                    [0..<bs] ! r"
    using r len slice by simp
qed

lemma intx_sum_ok:
  assumes ok: "valid_call val loc y is_test s"
  shows "intx_sum (map (\<lambda>r. map (\<lambda>i. map (vi_at ns loc is_test lv_floor s r i) [0..<n_dim s])
                              [0..<ncols val]) [0..<length val])
           val (fst (mask_vfm (length val) (ncols val) s))
         = Inr (map (intx_at ns val loc is_test lv_floor (mask_used val s) s) [0..<length val])"
proof -
  let ?vi = "map (\<lambda>r. map (\<lambda>i. map (vi_at ns loc is_test lv_floor s r i) [0..<n_dim s])
                              [0..<ncols val]) [0..<length val]"
  have fit: "mask_fits (length val) (ncols val) (fst (mask_vfm (length val) (ncols val) s))"
    using ok by (simp add: valid_call_def)
  note M = mask_used_shape [OF fit]
  note rows = valid_call_rows [OF ok]
  have "map (\<lambda>sl. sum_list (map sum_list sl))
           (mul3 (mul3 (batch_matmul_transb ?vi ?vi) (batch_outer val val)) (mask_used val s))
         = map (\<lambda>r. \<Sum>i<ncols val. \<Sum>j<ncols val.
                  (\<Sum>k<n_dim s. ?vi ! r ! i ! k * ?vi ! r ! j ! k) * (val ! r ! i * val ! r ! j)
                    * mask_used val s ! r ! i ! j)
             [0..<length val]"
    using rows(3) M by (intro masked_sum) simp_all
  also have "\<dots> = map (intx_at ns val loc is_test lv_floor (mask_used val s) s) [0..<length val]"
    by (intro map_cong refl) (simp add: intx_at_def)
  finally show ?thesis
    using fit by (simp add: intx_sum_def mul_const_def mask_fits_def mask_used_def bindE_def Let_def)
qed

lemma pred_of_ok:
  assumes wf: "wf_model s" and ok: "valid_call val loc y is_test s"
  shows "pred_of ns val loc y is_test lv_floor (fst (mask_vfm (length val) (ncols val) s)) s
         = Inr (map (pred_at ns val loc is_test lv_floor (mask_used val s) s) [0..<length val])"
proof -
  note rows = valid_call_rows [OF ok]
  have "pred_of ns val loc y is_test lv_floor (fst (mask_vfm (length val) (ncols val) s)) s
        = Inr (if intx_term s
          then map2 (+) (map2 (+) (map (bias_at ns is_test lv_floor s) [0..<length val])
                           (map (\<lambda>r. \<Sum>i<ncols val. coef_at ns loc is_test lv_floor s r i * val ! r ! i)
                              [0..<length val]))
                 (map (intx_at ns val loc is_test lv_floor (mask_used val s) s) [0..<length val])
          else map2 (+) (map (bias_at ns is_test lv_floor s) [0..<length val])
                           (map (\<lambda>r. \<Sum>i<ncols val. coef_at ns loc is_test lv_floor s r i * val ! r ! i)
                              [0..<length val]))"
    by (simp add: pred_of_def bias_term_ok [OF ok] coef_sample_ok [OF wf ok] vi_sample_ok [OF wf ok]
          intx_sum_ok [OF ok] slope_sum_ok [OF rows(3)] bindE_def add_vec_def Let_def)
  also have "\<dots> = Inr (map (pred_at ns val loc is_test lv_floor (mask_used val s) s) [0..<length val])"
    by (simp add: map2_map_map pred_at_def cong: map_cong)
  finally show ?thesis .
qed


lemma mean_squared_error_index:
  assumes "length y = n"
  shows "mean_squared_error (map p [0..<n]) y = (\<Sum>r<n. (p r - y ! r) * (p r - y ! r)) / real n"
proof -
  have len: "length (map2 (-) (map p [0..<n]) y) = n"
    using assms by simp
  have "dot (map2 (-) (map p [0..<n]) y) (map2 (-) (map p [0..<n]) y)
          = (\<Sum>r<n. map2 (-) (map p [0..<n]) y ! r * map2 (-) (map p [0..<n]) y ! r)"
    by (rule dot_index [OF len len])
  also have "\<dots> = (\<Sum>r<n. (p r - y ! r) * (p r - y ! r))"
    using assms by (intro sum.cong refl) simp
  finally show ?thesis
    using len by (simp add: mean_squared_error_def Let_def)
qed

lemma forward_ok:
  assumes wf: "wf_model s" and ok: "valid_call val loc y is_test s"
  shows "fst (forward ns val loc y is_test lv_floor s) =
     Inr \<lparr>loss = (\<Sum>r<length val. (pred_at ns val loc is_test lv_floor (mask_used val s) s r - y ! r)
                                  * (pred_at ns val loc is_test lv_floor (mask_used val s) s r - y ! r))
                    / real (length val)
                  + regt_of s * (real (length val) / total_nobs s),
          rmse = sqrt ((\<Sum>r<length val. (pred_at ns val loc is_test lv_floor (mask_used val s) s r - y ! r)
                                  * (pred_at ns val loc is_test lv_floor (mask_used val s) s r - y ! r))
                    / real (length val)),
          reg0 = gaussian_kl_divergence [bias_mu s] [bias_lv s],
          regt = regt_of s,
          reg1 = gaussian_kl_divergence (slope_mu s) (slope_lv s),
          reg2 = gaussian_kl_divergence (concat (latent_mu s)) (concat (latent_lv s)),
          bias = bias_mu s\<rparr>"
proof -
  have y: "length y = length val" and nz: "total_nobs s \<noteq> 0"
    using ok by (simp_all add: valid_call_def)
  show ?thesis
    by (simp add: forward_result pred_of_ok [OF wf ok] bindE_def nz
          mean_squared_error_index [OF y] valid_call_rows(1) [OF ok])
qed

text \<open>
  A valid call returns, and for a model of the constructor's shapes and a batch with a
  row the valid calls are exactly the calls that return, whatever the draws and
  \<^verbatim>\<open>lv_floor\<close>.
\<close>

lemma embed_id_returns:
  "embed_id W loc = Inr e \<Longrightarrow> list_all (list_all (\<lambda>i. i < length W)) loc"
  by (simp add: embed_id_def split: if_splits)

lemma pred_of_returns:
  assumes "pred_of ns val loc y is_test lv_floor m s = Inr pred"
  shows "list_all (list_all (\<lambda>i. i < length (slope_mu s))) loc \<and> mask_fits (length val) (ncols val) m"
proof -
  from assms obtain coef where coef: "coef_sample ns val loc is_test lv_floor s = Inr coef"
    by (cases "coef_sample ns val loc is_test lv_floor s";
        cases "bias_term ns y is_test lv_floor s") (simp_all add: pred_of_def bindE_def)
  then obtain e where "embed_id (slope_mu s) loc = Inr e"
    by (cases "embed_id (slope_mu s) loc") (simp_all add: coef_sample_def bindE_def Let_def)
  then have idx: "list_all (list_all (\<lambda>i. i < length (slope_mu s))) loc"
    by (rule embed_id_returns)
  from assms obtain vi intx where "intx_sum vi val m = Inr intx"
    by (auto simp add: pred_of_def bindE_def Let_def split: sum.splits)
  then have "mask_fits (length val) (ncols val) m"
    by (auto simp add: intx_sum_def mul_const_def mask_fits_def bindE_def Let_def split: if_splits)
  with idx show ?thesis by simp
qed

lemma forward_returns_iff:
  assumes wf: "wf_model s" and rows: "0 < length val" "list_all (\<lambda>row. length row = ncols val) val"
  shows "(\<exists>lg. fst (forward ns val loc y is_test lv_floor s) = Inr lg) \<longleftrightarrow> valid_call val loc y is_test s"
proof
  assume "valid_call val loc y is_test s"
  then show "\<exists>lg. fst (forward ns val loc y is_test lv_floor s) = Inr lg"
    by (simp add: forward_ok [OF wf])
next
  let ?m = "fst (mask_vfm (length val) (ncols val) s)"
  assume "\<exists>lg. fst (forward ns val loc y is_test lv_floor s) = Inr lg"
  then obtain lg where res: "fst (forward ns val loc y is_test lv_floor s) = Inr lg" ..
  then obtain pred where pred: "pred_of ns val loc y is_test lv_floor ?m s = Inr pred"
    by (cases "pred_of ns val loc y is_test lv_floor ?m s") (simp_all add: forward_result bindE_def)
  have nz: "total_nobs s \<noteq> 0"
    using res pred by (auto simp add: forward_result bindE_def split: if_splits)
  have "list_all (list_all (\<lambda>i. i < n_features s)) loc"
    using pred_of_returns [OF pred] wf by (simp add: wf_model_def)
  then show "valid_call val loc y is_test s"
    using pred_of_loc_rows [OF pred] pred_of_returns [OF pred] nz rows
    by (simp add: valid_call_def)
qed

subsection \<open>Test rows\<close>













lemma test_loss_depends_on_noise_any_floor:
  "(case (fst (forward no_noise [[0]] [[0]] [0] [1] lv_floor zero_model),
          fst (forward (no_noise\<lparr>eps_bias := \<lambda>_. 1\<rparr>) [[0]] [[0]] [0] [1] lv_floor zero_model)) of
      (Inr lg1, Inr lg2) \<Rightarrow> loss lg1 < loss lg2
    | _ \<Rightarrow> False)"
  by (simp add: forward_eval zero_model_def example_model_def no_noise_def)

section \<open>The interaction term\<close>










end
